theory Spec2Isabelle
  imports Main
begin

section \<open>The inventory service of the album store\<close>

text \<open>
  A shallow embedding of \<^verbatim>\<open>inventory-service/kafka_consumer.go\<close> and of the
  \<^verbatim>\<open>getInventory\<close> handler of the service's \<^verbatim>\<open>main.go\<close>.

  The relational store is a record of its two tables. Every call of the code to the
  store or to the broker is a step of the model; whether that call fails is read from
  an environment record, one per invocation, so that every error return of the source is
  a branch of the model. A value of an SQL \<^verbatim>\<open>INTEGER\<close> column and a Go
  \<^verbatim>\<open>int\<close> are mathematical integers here: the Go code never computes with a
  quantity (it only compares), and a statement that the storage engine refuses, for
  whatever reason, is a statement whose call fails. Tracing spans are left out: they
  influence neither the control flow nor the store nor the messages.
\<close>

subsection \<open>Data\<close>

text \<open>A row of table \<^verbatim>\<open>inventory\<close>, keyed by \<^verbatim>\<open>album_id\<close> (the primary key).\<close>

record ledger_entry =
  quantity_available :: int
  last_updated :: nat

type_synonym inventory_table = "string \<rightharpoonup> ledger_entry"

text \<open>\<^verbatim>\<open>kafka.Message\<close>, with the payload type left open: bytes (a string) for a consumed
  message, the event structure before \<^verbatim>\<open>json.Marshal\<close> for a produced one.\<close>

record 'v kafka_message =
  Key :: string
  Value :: 'v
  Headers :: "(string \<times> string) list"
  Partition :: int
  Offset :: int

record OrderMessage =
  OrderID :: string
  AlbumID :: string
  Quantity :: int
  UserID :: string
  Timestamp :: string

record AlbumCreatedEvent =
  ace_AlbumID :: string
  Title :: string
  Artist :: string
  ace_Timestamp :: nat
  InitialQuantity :: "int option"

text \<open>The two produced events: \<^verbatim>\<open>OrderFailedEvent{OrderID, Reason, Timestamp}\<close> and
  \<^verbatim>\<open>OrderSucceededEvent{OrderID, Timestamp}\<close>.\<close>

datatype outcome_event =
  OrderFailedEvent string string nat
| OrderSucceededEvent string nat

record Inventory =
  inv_AlbumID :: string
  inv_QuantityAvailable :: int
  inv_LastUpdated :: nat

datatype error =
  errNoInventory
| errInsufficientInventory
| sqlErrNoRows
| ErrStorage
| ErrParseAlbumCreatedEvent
| ErrDatabaseExecution
| ErrBeginTransaction
| ErrDatabaseUpdate
| ErrDatabaseResult
| ErrTransactionCommit
| ErrUnknownTopic string
| ErrWrite

text \<open>One constructor for each \<^verbatim>\<open>log.Printf\<close> of the modelled functions.\<close>

datatype log_line =
  LogReadError string
| LogProcessFailed string error int
| LogCommitOffsetFailed string int
| LogCommitted string int
| LogReceived string int int
| LogAlbumParseError string
| LogProcessingAlbum string string "int option"
| LogUsingInitialQuantity int
| LogDefaultingToZero
| LogInsertError
| LogInitialized string int
| LogOrderParseError string
| LogProcessingOrder string string int
| LogBeginError
| LogUpdateError
| LogRowsAffectedError
| LogCommitError
| LogDeducted
| LogSendSuccessFailed error
| LogNoInventoryRecord string
| LogQueryError
| LogInsufficient int int
| LogSendFailureFailed error
| LogInventoryUpdated string int

datatype writer = kafkaFailedEventWriter | kafkaSucceededEventWriter

text \<open>
  The state: the two tables, what was handed to each writer's \<^verbatim>\<open>WriteMessages\<close>
  (each message with whether the broker accepted it), the offsets handed to each reader's
  \<^verbatim>\<open>CommitMessages\<close> (with whether the commit was accepted), and the log.
  Table \<^verbatim>\<open>processed_orders\<close> maps an order identifier to its \<^verbatim>\<open>processed_at\<close>.
\<close>

record sys =
  inventory :: inventory_table
  processed_orders :: "string \<rightharpoonup> nat"
  failed_writes :: "(outcome_event kafka_message \<times> bool) list"
  succeeded_writes :: "(outcome_event kafka_message \<times> bool) list"
  order_commits :: "(int \<times> bool) list"
  album_commits :: "(int \<times> bool) list"
  logs :: "log_line list"

text \<open>What the environment decides during one invocation: the clock, and which of the
  calls to the store and the broker return an error.\<close>

record env =
  now :: nat
  begin_fails :: bool
  exec_fails :: bool
  rows_affected_fails :: bool
  commit_fails :: bool
  query_fails :: bool
  requery_fails :: bool
  write_fails :: bool
  commit_offset_fails :: bool

definition orderFailedTopic :: string where
  "orderFailedTopic = ''order-failed''"

definition orderSucceededTopic :: string where
  "orderSucceededTopic = ''order-succeeded''"

definition logf :: "log_line \<Rightarrow> sys \<Rightarrow> sys" where
  "logf l s = s\<lparr>logs := logs s @ [l]\<rparr>"

subsection \<open>The statements sent to the store\<close>

text \<open>\<^verbatim>\<open>UPDATE inventory SET quantity_available = quantity_available - $1
  WHERE album_id = $2 AND quantity_available >= $1\<close>, with the number of rows affected.\<close>

definition update_if_sufficient :: "inventory_table \<Rightarrow> int \<Rightarrow> string \<Rightarrow> inventory_table \<times> nat" where
  "update_if_sufficient t q a =
     (case t a of
        None \<Rightarrow> (t, 0)
      | Some r \<Rightarrow>
          if quantity_available r \<ge> q
          then (t(a \<mapsto> r\<lparr>quantity_available := quantity_available r - q\<rparr>), 1)
          else (t, 0))"

text \<open>\<^verbatim>\<open>UPDATE inventory SET quantity_available = quantity_available - $1,
  last_updated = $2 WHERE album_id = $3\<close>.\<close>

definition update_unconditional :: "inventory_table \<Rightarrow> int \<Rightarrow> nat \<Rightarrow> string \<Rightarrow> inventory_table" where
  "update_unconditional t q ts a =
     (case t a of
        None \<Rightarrow> t
      | Some r \<Rightarrow> t(a \<mapsto> \<lparr>quantity_available = quantity_available r - q, last_updated = ts\<rparr>))"

text \<open>\<^verbatim>\<open>INSERT INTO inventory (album_id, quantity_available, last_updated)
  VALUES ($1, $2, NOW()) ON CONFLICT (album_id) DO NOTHING\<close>.\<close>

definition insert_if_absent :: "inventory_table \<Rightarrow> string \<Rightarrow> int \<Rightarrow> nat \<Rightarrow> inventory_table" where
  "insert_if_absent t a q ts =
     (case t a of
        None \<Rightarrow> t(a \<mapsto> \<lparr>quantity_available = q, last_updated = ts\<rparr>)
      | Some r \<Rightarrow> t)"

text \<open>\<^verbatim>\<open>SELECT ... FROM inventory WHERE album_id = $1\<close> followed by \<^verbatim>\<open>Scan\<close>:
  the row, \<^verbatim>\<open>sql.ErrNoRows\<close>, or another error.\<close>

datatype query_result = Row ledger_entry | NoRows | QueryError

definition QueryRow :: "bool \<Rightarrow> inventory_table \<Rightarrow> string \<Rightarrow> query_result" where
  "QueryRow fails t a =
     (if fails then QueryError else case t a of None \<Rightarrow> NoRows | Some r \<Rightarrow> Row r)"

subsection \<open>Publishing an outcome\<close>

definition WriteMessages :: "env \<Rightarrow> writer \<Rightarrow> outcome_event kafka_message \<Rightarrow> sys \<Rightarrow> error option \<times> sys" where
  "WriteMessages e w m s =
     (let s' = (case w of
                  kafkaFailedEventWriter \<Rightarrow> s\<lparr>failed_writes := failed_writes s @ [(m, \<not> write_fails e)]\<rparr>
                | kafkaSucceededEventWriter \<Rightarrow> s\<lparr>succeeded_writes := succeeded_writes s @ [(m, \<not> write_fails e)]\<rparr>)
      in (if write_fails e then Some ErrWrite else None, s'))"

text \<open>\<^verbatim>\<open>sendOrderEvent\<close>: the message is built from the order identifier and the event
  alone; of the fields of \<^verbatim>\<open>kafka.Message\<close> only \<^verbatim>\<open>Key\<close> and \<^verbatim>\<open>Value\<close> are set, the
  others keep Go's zero value.\<close>

definition sendOrderEvent :: "env \<Rightarrow> string \<Rightarrow> string \<Rightarrow> string \<Rightarrow> writer \<Rightarrow> sys \<Rightarrow> error option \<times> sys" where
  "sendOrderEvent e orderID reason topic w s =
     (if topic = orderFailedTopic then
        WriteMessages e w
          \<lparr>Key = orderID, Value = OrderFailedEvent orderID reason (now e),
           Headers = [], Partition = 0, Offset = 0\<rparr> s
      else if topic = orderSucceededTopic then
        WriteMessages e w
          \<lparr>Key = orderID, Value = OrderSucceededEvent orderID (now e),
           Headers = [], Partition = 0, Offset = 0\<rparr> s
      else (Some (ErrUnknownTopic topic), s))"

definition sendOrderFailedEvent :: "env \<Rightarrow> string \<Rightarrow> string \<Rightarrow> sys \<Rightarrow> error option \<times> sys" where
  "sendOrderFailedEvent e orderID reason s =
     sendOrderEvent e orderID reason orderFailedTopic kafkaFailedEventWriter s"

definition sendOrderSucceededEvent :: "env \<Rightarrow> string \<Rightarrow> sys \<Rightarrow> error option \<times> sys" where
  "sendOrderSucceededEvent e orderID s =
     sendOrderEvent e orderID [] orderSucceededTopic kafkaSucceededEventWriter s"

subsection \<open>The Reservation Coordinator\<close>

text \<open>
  \<^verbatim>\<open>processOrderCreated\<close>. The decoder \<open>unmarshal\<close> stands for \<^verbatim>\<open>json.Unmarshal\<close>
  into an \<^verbatim>\<open>OrderMessage\<close>. The transaction works on \<open>tx\<close>, a copy of the table that
  \<^verbatim>\<open>Commit\<close> installs; every return without a commit leaves the table as it was (the
  deferred \<^verbatim>\<open>tx.Rollback()\<close>).
\<close>

definition processOrderCreated ::
  "(string \<Rightarrow> OrderMessage option) \<Rightarrow> env \<Rightarrow> string kafka_message \<Rightarrow> sys \<Rightarrow> error option \<times> sys" where
  "processOrderCreated unmarshal e msg s0 =
     (let s1 = logf (LogReceived ''order-created'' (Partition msg) (Offset msg)) s0 in
      case unmarshal (Value msg) of
        None \<Rightarrow> (None, logf (LogOrderParseError (Value msg)) s1)
      | Some event \<Rightarrow>
          let s2 = logf (LogProcessingOrder (OrderID event) (AlbumID event) (Quantity event)) s1 in
          if begin_fails e then (Some ErrBeginTransaction, logf LogBeginError s2)
          else if exec_fails e then (Some ErrDatabaseUpdate, logf LogUpdateError s2)
          else
            let (tx, rowsAffected) = update_if_sufficient (inventory s2) (Quantity event) (AlbumID event) in
            if rows_affected_fails e then (Some ErrDatabaseResult, logf LogRowsAffectedError s2)
            else if rowsAffected = 1 then
              (if commit_fails e then (Some ErrTransactionCommit, logf LogCommitError s2)
               else
                 let s3 = logf LogDeducted (s2\<lparr>inventory := tx\<rparr>);
                     (err, s4) = sendOrderSucceededEvent e (OrderID event) s3;
                     s5 = (case err of Some x \<Rightarrow> logf (LogSendSuccessFailed x) s4 | None \<Rightarrow> s4)
                 in (None, s5))
            else
              let s3 = (case QueryRow (query_fails e) (inventory s2) (AlbumID event) of
                          NoRows \<Rightarrow> logf (LogNoInventoryRecord (AlbumID event)) s2
                        | QueryError \<Rightarrow> logf LogQueryError s2
                        | Row r \<Rightarrow> logf (LogInsufficient (Quantity event) (quantity_available r)) s2);
                  (err, s4) = sendOrderFailedEvent e (OrderID event) ''INSUFFICIENT_INVENTORY'' s3;
                  s5 = (case err of Some x \<Rightarrow> logf (LogSendFailureFailed x) s4 | None \<Rightarrow> s4)
              in (None, s5))"

text \<open>What \<^verbatim>\<open>ReadMessage\<close> returns in one iteration of a consuming loop.\<close>

datatype delivery = ReadError | Msg "string kafka_message"

text \<open>One iteration of the loop of \<^verbatim>\<open>startOrderConsumer\<close>.\<close>

definition order_consumer_step ::
  "(string \<Rightarrow> OrderMessage option) \<Rightarrow> env \<Rightarrow> delivery \<Rightarrow> sys \<Rightarrow> sys" where
  "order_consumer_step unmarshal e d s =
     (case d of
        ReadError \<Rightarrow> logf (LogReadError ''order-created'') s
      | Msg msg \<Rightarrow>
          (case processOrderCreated unmarshal e msg s of
             (Some err, s1) \<Rightarrow> logf (LogProcessFailed ''order-created'' err (Offset msg)) s1
           | (None, s1) \<Rightarrow>
               let s2 = s1\<lparr>order_commits := order_commits s1 @ [(Offset msg, \<not> commit_offset_fails e)]\<rparr>
               in if commit_offset_fails e
                  then logf (LogCommitOffsetFailed ''order-created'' (Offset msg)) s2
                  else logf (LogCommitted ''order-created'' (Offset msg)) s2))"

text \<open>The loop of \<^verbatim>\<open>startOrderConsumer\<close> never ends; its state after the iterations for a
  finite sequence of reads, each with the environment of its iteration.\<close>

fun startOrderConsumer ::
  "(string \<Rightarrow> OrderMessage option) \<Rightarrow> (env \<times> delivery) list \<Rightarrow> sys \<Rightarrow> sys" where
  "startOrderConsumer unmarshal [] s = s"
| "startOrderConsumer unmarshal ((e, d) # ds) s =
     startOrderConsumer unmarshal ds (order_consumer_step unmarshal e d s)"

text \<open>The total quantity of album \<open>a\<close> in the orders of a run for which a success event
  was handed to the writer of \<^verbatim>\<open>order-succeeded\<close>.\<close>

fun succeeded_quantity ::
  "(string \<Rightarrow> OrderMessage option) \<Rightarrow> string \<Rightarrow> (env \<times> delivery) list \<Rightarrow> sys \<Rightarrow> int" where
  "succeeded_quantity unmarshal a [] s = 0"
| "succeeded_quantity unmarshal a ((e, d) # ds) s =
     (let s' = order_consumer_step unmarshal e d s;
          here = (case d of
                    ReadError \<Rightarrow> 0
                  | Msg msg \<Rightarrow>
                      (case unmarshal (Value msg) of
                         None \<Rightarrow> 0
                       | Some ev \<Rightarrow>
                           if AlbumID ev = a \<and> succeeded_writes s' \<noteq> succeeded_writes s
                           then Quantity ev else 0))
      in here + succeeded_quantity unmarshal a ds s')"

subsection \<open>The Catalog Bootstrap Listener\<close>

text \<open>\<^verbatim>\<open>processAlbumCreatedEvent\<close>; \<open>unmarshal\<close> stands for \<^verbatim>\<open>json.Unmarshal\<close> into an
  \<^verbatim>\<open>AlbumCreatedEvent\<close>, and \<^verbatim>\<open>NOW()\<close> is the clock of the invocation.\<close>

definition processAlbumCreatedEvent ::
  "(string \<Rightarrow> AlbumCreatedEvent option) \<Rightarrow> env \<Rightarrow> string kafka_message \<Rightarrow> sys \<Rightarrow> error option \<times> sys" where
  "processAlbumCreatedEvent unmarshal e msg s0 =
     (let s1 = logf (LogReceived ''album-created'' (Partition msg) (Offset msg)) s0 in
      case unmarshal (Value msg) of
        None \<Rightarrow> (Some ErrParseAlbumCreatedEvent, logf (LogAlbumParseError (Value msg)) s1)
      | Some event \<Rightarrow>
          let s2 = logf (LogProcessingAlbum (ace_AlbumID event) (Title event) (InitialQuantity event)) s1;
              (quantityToInsert, s3) =
                (case InitialQuantity event of
                   Some q \<Rightarrow> if q \<ge> 0 then (q, logf (LogUsingInitialQuantity q) s2)
                             else (0, logf LogDefaultingToZero s2)
                 | None \<Rightarrow> (0, logf LogDefaultingToZero s2))
          in if exec_fails e then (Some ErrDatabaseExecution, logf LogInsertError s3)
             else (None,
                   logf (LogInitialized (ace_AlbumID event) quantityToInsert)
                     (s3\<lparr>inventory :=
                           insert_if_absent (inventory s3) (ace_AlbumID event) quantityToInsert (now e)\<rparr>)))"

text \<open>One iteration of the loop of \<^verbatim>\<open>startAlbumCreatedConsumer\<close>.\<close>

definition album_consumer_step ::
  "(string \<Rightarrow> AlbumCreatedEvent option) \<Rightarrow> env \<Rightarrow> delivery \<Rightarrow> sys \<Rightarrow> sys" where
  "album_consumer_step unmarshal e d s =
     (case d of
        ReadError \<Rightarrow> logf (LogReadError ''album-created'') s
      | Msg msg \<Rightarrow>
          (case processAlbumCreatedEvent unmarshal e msg s of
             (Some err, s1) \<Rightarrow> logf (LogProcessFailed ''album-created'' err (Offset msg)) s1
           | (None, s1) \<Rightarrow>
               let s2 = s1\<lparr>album_commits := album_commits s1 @ [(Offset msg, \<not> commit_offset_fails e)]\<rparr>
               in if commit_offset_fails e
                  then logf (LogCommitOffsetFailed ''album-created'' (Offset msg)) s2
                  else logf (LogCommitted ''album-created'' (Offset msg)) s2))"

fun startAlbumCreatedConsumer ::
  "(string \<Rightarrow> AlbumCreatedEvent option) \<Rightarrow> (env \<times> delivery) list \<Rightarrow> sys \<Rightarrow> sys" where
  "startAlbumCreatedConsumer unmarshal [] s = s"
| "startAlbumCreatedConsumer unmarshal ((e, d) # ds) s =
     startAlbumCreatedConsumer unmarshal ds (album_consumer_step unmarshal e d s)"

subsection \<open>The synchronous reservation\<close>

text \<open>
  \<^verbatim>\<open>reserveInventory\<close> sends three statements to the store, outside any transaction. The
  model cuts the body where the source goes from reading to writing:
  \<open>reserveInventory_check\<close> is the first \<^verbatim>\<open>SELECT\<close> and the comparison (its result is the
  error of an early return, or \<open>None\<close> to go on), \<open>reserveInventory_apply\<close> is the
  \<^verbatim>\<open>UPDATE\<close>, the second \<^verbatim>\<open>SELECT\<close> and the log line.
\<close>

definition reserveInventory_check :: "env \<Rightarrow> string \<Rightarrow> int \<Rightarrow> sys \<Rightarrow> error option" where
  "reserveInventory_check e albumID quantity s =
     (case QueryRow (query_fails e) (inventory s) albumID of
        NoRows \<Rightarrow> Some errNoInventory
      | QueryError \<Rightarrow> Some ErrStorage
      | Row r \<Rightarrow>
          if quantity_available r < quantity then Some errInsufficientInventory else None)"

definition reserveInventory_apply :: "env \<Rightarrow> string \<Rightarrow> int \<Rightarrow> sys \<Rightarrow> error option \<times> sys" where
  "reserveInventory_apply e albumID quantity s =
     (if exec_fails e then (Some ErrStorage, s)
      else
        let s1 = s\<lparr>inventory := update_unconditional (inventory s) quantity (now e) albumID\<rparr> in
        case QueryRow (requery_fails e) (inventory s1) albumID of
          NoRows \<Rightarrow> (Some sqlErrNoRows, s1)
        | QueryError \<Rightarrow> (Some ErrStorage, s1)
        | Row r \<Rightarrow> (None, logf (LogInventoryUpdated albumID (quantity_available r)) s1))"

definition reserveInventory :: "env \<Rightarrow> string \<Rightarrow> int \<Rightarrow> sys \<Rightarrow> error option \<times> sys" where
  "reserveInventory e albumID quantity s =
     (case reserveInventory_check e albumID quantity s of
        Some err \<Rightarrow> (Some err, s)
      | None \<Rightarrow> reserveInventory_apply e albumID quantity s)"

subsection \<open>The read endpoint\<close>

text \<open>\<^verbatim>\<open>getInventory\<close>, the handler of \<^verbatim>\<open>GET /api/inventory/:albumId\<close>: the status and
  the body given to \<^verbatim>\<open>c.JSON\<close>, and the state after the request. An error body is the
  fixed part of its message, without the text of the driver's error.\<close>

datatype http_body = InventoryBody Inventory | ErrorBody string

definition StatusOK :: nat where
  "StatusOK = 200"

definition StatusNotFound :: nat where
  "StatusNotFound = 404"

definition StatusInternalServerError :: nat where
  "StatusInternalServerError = 500"

definition getInventory :: "env \<Rightarrow> string \<Rightarrow> sys \<Rightarrow> (nat \<times> http_body) \<times> sys" where
  "getInventory e albumID s =
     (case QueryRow (query_fails e) (inventory s) albumID of
        NoRows \<Rightarrow>
          ((StatusOK,
            InventoryBody \<lparr>inv_AlbumID = albumID, inv_QuantityAvailable = 0, inv_LastUpdated = now e\<rparr>), s)
      | QueryError \<Rightarrow> ((StatusInternalServerError, ErrorBody ''Database error: ''), s)
      | Row r \<Rightarrow>
          ((StatusOK,
            InventoryBody \<lparr>inv_AlbumID = albumID, inv_QuantityAvailable = quantity_available r,
                           inv_LastUpdated = last_updated r\<rparr>), s))"

subsection \<open>Concrete inputs\<close>

text \<open>An environment in which no call fails, at clock reading \<open>t\<close>.\<close>

definition calm :: "nat \<Rightarrow> env" where
  "calm t = \<lparr>now = t, begin_fails = False, exec_fails = False, rows_affected_fails = False,
             commit_fails = False, query_fails = False, requery_fails = False,
             write_fails = False, commit_offset_fails = False\<rparr>"

text \<open>A store holding \<open>n\<close> copies of album \<open>a\<close> and nothing else.\<close>

definition shop :: "string \<Rightarrow> int \<Rightarrow> sys" where
  "shop a n = \<lparr>inventory = [a \<mapsto> \<lparr>quantity_available = n, last_updated = 0\<rparr>],
               processed_orders = Map.empty, failed_writes = [], succeeded_writes = [],
               order_commits = [], album_commits = [], logs = []\<rparr>"

text \<open>Decoders given by a finite table of payloads; every other payload is undecodable.\<close>

definition order_payloads :: "string \<Rightarrow> OrderMessage option" where
  "order_payloads = map_of
     [(''order o1: 1 of A'',
         \<lparr>OrderID = ''o1'', AlbumID = ''A'', Quantity = 1, UserID = ''u1'', Timestamp = ''t''\<rparr>),
      (''order o2: 5 of A'',
         \<lparr>OrderID = ''o2'', AlbumID = ''A'', Quantity = 5, UserID = ''u1'', Timestamp = ''t''\<rparr>),
      (''order o3: 1 of B'',
         \<lparr>OrderID = ''o3'', AlbumID = ''B'', Quantity = 1, UserID = ''u2'', Timestamp = ''t''\<rparr>)]"

definition album_payloads :: "string \<Rightarrow> AlbumCreatedEvent option" where
  "album_payloads = map_of
     [(''album B: 7'',
         \<lparr>ace_AlbumID = ''B'', Title = ''T'', Artist = ''X'', ace_Timestamp = 0, InitialQuantity = Some 7\<rparr>),
      (''album A: 9'',
         \<lparr>ace_AlbumID = ''A'', Title = ''T'', Artist = ''X'', ace_Timestamp = 0, InitialQuantity = Some 9\<rparr>)]"

definition message :: "string \<Rightarrow> int \<Rightarrow> string kafka_message" where
  "message payload off =
     \<lparr>Key = [], Value = payload, Headers = [(''traceparent'', ''00-0af7-b7ad-01'')],
      Partition = 0, Offset = off\<rparr>"

section \<open>Properties\<close>

subsection \<open>Auxiliary facts\<close>

lemmas order_unfold = processOrderCreated_def sendOrderSucceededEvent_def sendOrderFailedEvent_def
  sendOrderEvent_def WriteMessages_def logf_def update_if_sufficient_def QueryRow_def
  orderFailedTopic_def orderSucceededTopic_def Let_def

lemmas album_unfold = processAlbumCreatedEvent_def insert_if_absent_def logf_def Let_def

lemmas demo_unfold = shop_def calm_def message_def order_payloads_def album_payloads_def

lemma inventory_after_order:
  "inventory (snd (processOrderCreated unmarshal e msg s)) =
     (case unmarshal (Value msg) of
        None \<Rightarrow> inventory s
      | Some ev \<Rightarrow>
          (case inventory s (AlbumID ev) of
             None \<Rightarrow> inventory s
           | Some r \<Rightarrow>
               if Quantity ev \<le> quantity_available r \<and> \<not> begin_fails e \<and> \<not> exec_fails e
                  \<and> \<not> rows_affected_fails e \<and> \<not> commit_fails e
               then (inventory s)(AlbumID ev \<mapsto> r\<lparr>quantity_available := quantity_available r - Quantity ev\<rparr>)
               else inventory s))"
  by (simp add: order_unfold split: option.splits query_result.splits)

lemma inventory_order_consumer_step:
  "inventory (order_consumer_step unmarshal e d s) =
     (case d of ReadError \<Rightarrow> inventory s
      | Msg msg \<Rightarrow> inventory (snd (processOrderCreated unmarshal e msg s)))"
  by (simp add: order_consumer_step_def logf_def Let_def split: delivery.splits prod.splits option.splits)

lemma order_commits_after_order:
  "order_commits (snd (processOrderCreated unmarshal e msg s)) = order_commits s"
  by (simp add: order_unfold split: option.splits query_result.splits)

lemma order_commits_step:
  "order_commits (order_consumer_step unmarshal e (Msg msg) s) =
     (if fst (processOrderCreated unmarshal e msg s) = None
      then order_commits s @ [(Offset msg, \<not> commit_offset_fails e)]
      else order_commits s)"
  using order_commits_after_order[of unmarshal e msg s]
  by (cases "processOrderCreated unmarshal e msg s")
     (auto simp: order_consumer_step_def logf_def Let_def split: option.splits)

lemma order_step_keeps_nonneg:
  assumes "inventory s a = Some r" "0 \<le> quantity_available r"
  shows "\<exists>r'. inventory (order_consumer_step unmarshal e d s) a = Some r' \<and> 0 \<le> quantity_available r'"
  using assms
  by (auto simp: inventory_order_consumer_step inventory_after_order split: delivery.splits option.splits)

lemma order_run_keeps_nonneg:
  assumes "inventory s a = Some r" "0 \<le> quantity_available r"
  shows "\<exists>r'. inventory (startOrderConsumer unmarshal ds s) a = Some r' \<and> 0 \<le> quantity_available r'"
  using assms
proof (induction ds arbitrary: s r)
  case Nil
  then show ?case by simp
next
  case (Cons x ds)
  obtain e d where x: "x = (e, d)" by (cases x)
  from order_step_keeps_nonneg[OF Cons.prems, of unmarshal e d]
  obtain r1 where "inventory (order_consumer_step unmarshal e d s) a = Some r1" "0 \<le> quantity_available r1"
    by blast
  from Cons.IH[OF this] show ?case by (simp add: x)
qed

lemma succeeded_writes_order_consumer_step:
  "succeeded_writes (order_consumer_step unmarshal e d s) =
     (case d of ReadError \<Rightarrow> succeeded_writes s
      | Msg msg \<Rightarrow> succeeded_writes (snd (processOrderCreated unmarshal e msg s)))"
  by (simp add: order_consumer_step_def logf_def Let_def split: delivery.splits prod.splits option.splits)

lemma success_written_iff_deducted:
  "(succeeded_writes (snd (processOrderCreated unmarshal e msg s)) \<noteq> succeeded_writes s) =
     (\<exists>ev r. unmarshal (Value msg) = Some ev \<and> inventory s (AlbumID ev) = Some r
        \<and> Quantity ev \<le> quantity_available r \<and> \<not> begin_fails e \<and> \<not> exec_fails e
        \<and> \<not> rows_affected_fails e \<and> \<not> commit_fails e)"
  by (auto simp: order_unfold split: option.splits query_result.splits)

lemma order_step_accounts:
  assumes "inventory s a = Some r"
  shows "\<exists>r'. inventory (order_consumer_step unmarshal e d s) a = Some r'
     \<and> quantity_available r' = quantity_available r - succeeded_quantity unmarshal a [(e, d)] s"
proof (cases d)
  case ReadError
  then show ?thesis using assms by (simp add: inventory_order_consumer_step)
next
  case (Msg msg)
  show ?thesis
  proof (cases "unmarshal (Value msg)")
    case None
    then show ?thesis using assms Msg
      by (simp add: inventory_order_consumer_step inventory_after_order)
  next
    case (Some ev)
    then show ?thesis using assms Msg success_written_iff_deducted[of unmarshal e msg s]
      by (auto simp: inventory_order_consumer_step inventory_after_order
            succeeded_writes_order_consumer_step split: option.splits)
  qed
qed

lemma serial_orders_conserve_stock:
  assumes "inventory s a = Some r"
  shows "\<exists>r'. inventory (startOrderConsumer unmarshal ds s) a = Some r'
     \<and> quantity_available r' = quantity_available r - succeeded_quantity unmarshal a ds s"
  using assms
proof (induction ds arbitrary: s r)
  case Nil
  then show ?case by simp
next
  case (Cons x ds)
  obtain e d where x: "x = (e, d)" by (cases x)
  from order_step_accounts[OF Cons.prems, of unmarshal e d]
  obtain r1 where r1: "inventory (order_consumer_step unmarshal e d s) a = Some r1"
    and q1: "quantity_available r1 = quantity_available r - succeeded_quantity unmarshal a [(e, d)] s"
    by blast
  from Cons.IH[OF r1]
  obtain r' where "inventory (startOrderConsumer unmarshal ds (order_consumer_step unmarshal e d s)) a = Some r'"
    and "quantity_available r' = quantity_available r1
           - succeeded_quantity unmarshal a ds (order_consumer_step unmarshal e d s)"
    by blast
  then show ?case using q1 by (simp add: x Let_def)
qed

lemma serial_orders_never_oversell:
  assumes "inventory s a = Some r" "0 \<le> quantity_available r"
  shows "succeeded_quantity unmarshal a ds s \<le> quantity_available r"
proof -
  from serial_orders_conserve_stock[OF assms(1), of unmarshal ds]
  obtain r' where a: "inventory (startOrderConsumer unmarshal ds s) a = Some r'"
    and b: "quantity_available r' = quantity_available r - succeeded_quantity unmarshal a ds s"
    by blast
  from order_run_keeps_nonneg[OF assms, of unmarshal ds] a have "0 \<le> quantity_available r'"
    by simp
  with b show ?thesis by simp
qed

lemma inventory_after_album:
  "inventory (snd (processAlbumCreatedEvent unmarshal e msg s)) =
     (case unmarshal (Value msg) of
        None \<Rightarrow> inventory s
      | Some ev \<Rightarrow>
          if exec_fails e then inventory s
          else (case inventory s (ace_AlbumID ev) of
                  Some r \<Rightarrow> inventory s
                | None \<Rightarrow>
                    (inventory s)(ace_AlbumID ev \<mapsto>
                       \<lparr>quantity_available =
                          (case InitialQuantity ev of Some q \<Rightarrow> if 0 \<le> q then q else 0 | None \<Rightarrow> 0),
                        last_updated = now e\<rparr>)))"
  by (simp add: album_unfold split: option.splits prod.splits)

lemma inventory_album_consumer_step:
  "inventory (album_consumer_step unmarshal e d s) =
     (case d of ReadError \<Rightarrow> inventory s
      | Msg msg \<Rightarrow> inventory (snd (processAlbumCreatedEvent unmarshal e msg s)))"
  by (simp add: album_consumer_step_def logf_def Let_def split: delivery.splits prod.splits option.splits)

lemma album_step_keeps_entry:
  "inventory s a = Some r \<Longrightarrow> inventory (album_consumer_step unmarshal e d s) a = Some r"
  by (auto simp: inventory_album_consumer_step inventory_after_album split: delivery.splits option.splits)

lemma album_run_keeps_entry:
  "inventory s a = Some r \<Longrightarrow> inventory (startAlbumCreatedConsumer unmarshal ds s) a = Some r"
proof (induction ds arbitrary: s)
  case Nil
  then show ?case by simp
next
  case (Cons x ds)
  obtain e d where x: "x = (e, d)" by (cases x)
  show ?case using Cons.IH[OF album_step_keeps_entry[OF Cons.prems, of unmarshal e d]] by (simp add: x)
qed





lemma order_consumer_never_touches_processed_orders:
  "processed_orders (snd (processOrderCreated unmarshal e msg s)) = processed_orders s
   \<and> fst (processOrderCreated unmarshal e msg (s\<lparr>processed_orders := p\<rparr>)) =
       fst (processOrderCreated unmarshal e msg s)
   \<and> snd (processOrderCreated unmarshal e msg (s\<lparr>processed_orders := p\<rparr>)) =
       (snd (processOrderCreated unmarshal e msg s))\<lparr>processed_orders := p\<rparr>"
  by (simp add: order_unfold split: option.splits query_result.splits)

lemma reserveInventory_alone:
  "inventory (snd (reserveInventory e a q s)) =
     (case inventory s a of
        None \<Rightarrow> inventory s
      | Some r \<Rightarrow>
          if query_fails e \<or> quantity_available r < q \<or> exec_fails e then inventory s
          else (inventory s)(a \<mapsto> \<lparr>quantity_available = quantity_available r - q, last_updated = now e\<rparr>))"
  by (simp add: reserveInventory_def reserveInventory_check_def reserveInventory_apply_def
        QueryRow_def update_unconditional_def logf_def Let_def
      split: option.splits query_result.splits)

subsection \<open>The conditional decrement\<close>

text \<open>
  Claim C2. The Ledger after \<^verbatim>\<open>processOrderCreated\<close> is given exactly: the entry of the
  ordered album is decremented by the whole requested quantity when the stored quantity is
  at least the requested one (and no call to the store fails), and in every other case the
  table is the one before; there is no third outcome. Moreover, for every sequence of reads
  of the order consumer, with any failures, an item whose quantity is not negative at the
  start has a quantity that is not negative after every prefix of the sequence.
\<close>

theorem conditional_decrement_all_or_nothing:
  "inventory (snd (processOrderCreated unmarshal e msg s)) =
     (case unmarshal (Value msg) of
        None \<Rightarrow> inventory s
      | Some ev \<Rightarrow>
          (case inventory s (AlbumID ev) of
             None \<Rightarrow> inventory s
           | Some r \<Rightarrow>
               if Quantity ev \<le> quantity_available r \<and> \<not> begin_fails e \<and> \<not> exec_fails e
                  \<and> \<not> rows_affected_fails e \<and> \<not> commit_fails e
               then (inventory s)(AlbumID ev \<mapsto> r\<lparr>quantity_available := quantity_available r - Quantity ev\<rparr>)
               else inventory s))
   \<and> (inventory s a = Some r0 \<and> 0 \<le> quantity_available r0 \<longrightarrow>
        (\<forall>n \<le> length ds. \<exists>r'. inventory (startOrderConsumer unmarshal (take n ds) s) a = Some r'
                               \<and> 0 \<le> quantity_available r'))"
  using order_run_keeps_nonneg[of s a r0 unmarshal]
  by (simp add: inventory_after_order)

theorem conditional_decrement_witness:
  "inventory (shop ''A'' 3) ''A'' = Some \<lparr>quantity_available = 3, last_updated = 0\<rparr>
   \<and> inventory (snd (processOrderCreated order_payloads (calm 1) (message ''order o1: 1 of A'' 0) (shop ''A'' 3))) ''A''
       = Some \<lparr>quantity_available = 2, last_updated = 0\<rparr>
   \<and> inventory (startOrderConsumer order_payloads
                 [(calm 1, Msg (message ''order o1: 1 of A'' 0)),
                  (calm 2, Msg (message ''order o2: 5 of A'' 1)),
                  (calm 3, Msg (message ''order o1: 1 of A'' 0))] (shop ''A'' 3)) ''A''
       = Some \<lparr>quantity_available = 1, last_updated = 0\<rparr>"
  using conditional_decrement_all_or_nothing
     [of order_payloads "calm 1" "message ''order o1: 1 of A'' 0" "shop ''A'' 3" "''A''"
         "\<lparr>quantity_available = 3, last_updated = 0\<rparr>"
         "[(calm 1, Msg (message ''order o1: 1 of A'' 0)),
           (calm 2, Msg (message ''order o2: 5 of A'' 1)),
           (calm 3, Msg (message ''order o1: 1 of A'' 0))]"]
  by (simp add: demo_unfold inventory_order_consumer_step inventory_after_order)

subsection \<open>Zero rows affected\<close>

text \<open>
  Claim C4. When the event decodes, the calls to the store succeed and the conditional
  update affects zero rows, then the item has no entry or too little stock, and in both
  cases alike the coordinator returns no error, leaves the Ledger as it was (so no row is
  created), hands exactly one message to the writer of topic \<^verbatim>\<open>order-failed\<close>, with the
  reason \<^verbatim>\<open>INSUFFICIENT_INVENTORY\<close>, hands nothing to the writer of
  \<^verbatim>\<open>order-succeeded\<close>, and the loop commits the offset of the message.
\<close>

theorem zero_rows_publishes_insufficient_inventory:
  assumes "unmarshal (Value msg) = Some ev"
    and "\<not> begin_fails e" and "\<not> exec_fails e" and "\<not> rows_affected_fails e"
    and "snd (update_if_sufficient (inventory s) (Quantity ev) (AlbumID ev)) = 0"
  shows "(inventory s (AlbumID ev) = None
          \<or> (\<exists>r. inventory s (AlbumID ev) = Some r \<and> quantity_available r < Quantity ev))
     \<and> fst (processOrderCreated unmarshal e msg s) = None
     \<and> inventory (snd (processOrderCreated unmarshal e msg s)) = inventory s
     \<and> failed_writes (snd (processOrderCreated unmarshal e msg s)) =
         failed_writes s @
           [(\<lparr>Key = OrderID ev,
              Value = OrderFailedEvent (OrderID ev) ''INSUFFICIENT_INVENTORY'' (now e),
              Headers = [], Partition = 0, Offset = 0\<rparr>, \<not> write_fails e)]
     \<and> succeeded_writes (snd (processOrderCreated unmarshal e msg s)) = succeeded_writes s
     \<and> order_commits (order_consumer_step unmarshal e (Msg msg) s) =
         order_commits s @ [(Offset msg, \<not> commit_offset_fails e)]"
proof -
  have cause: "inventory s (AlbumID ev) = None
          \<or> (\<exists>r. inventory s (AlbumID ev) = Some r \<and> quantity_available r < Quantity ev)"
    using assms(5) by (auto simp: update_if_sufficient_def split: option.splits if_splits)
  have fst_none: "fst (processOrderCreated unmarshal e msg s) = None"
    using assms(1-4) cause by (auto simp: order_unfold split: query_result.splits)
  have inv: "inventory (snd (processOrderCreated unmarshal e msg s)) = inventory s"
    using assms(1) cause by (auto simp: inventory_after_order)
  have fw: "failed_writes (snd (processOrderCreated unmarshal e msg s)) =
         failed_writes s @
           [(\<lparr>Key = OrderID ev,
              Value = OrderFailedEvent (OrderID ev) ''INSUFFICIENT_INVENTORY'' (now e),
              Headers = [], Partition = 0, Offset = 0\<rparr>, \<not> write_fails e)]"
    using assms(1-4) cause by (auto simp: order_unfold split: query_result.splits)
  have sw: "succeeded_writes (snd (processOrderCreated unmarshal e msg s)) = succeeded_writes s"
    using assms(1-4) cause by (auto simp: order_unfold split: query_result.splits)
  show ?thesis using fst_none cause inv fw sw by (simp add: order_commits_step)
qed

theorem zero_rows_witness:
  "fst (processOrderCreated order_payloads (calm 7) (message ''order o3: 1 of B'' 4) (shop ''A'' 3)) = None
   \<and> inventory (snd (processOrderCreated order_payloads (calm 7) (message ''order o3: 1 of B'' 4) (shop ''A'' 3))) ''B'' = None
   \<and> failed_writes (snd (processOrderCreated order_payloads (calm 7) (message ''order o3: 1 of B'' 4) (shop ''A'' 3))) =
       [(\<lparr>Key = ''o3'', Value = OrderFailedEvent ''o3'' ''INSUFFICIENT_INVENTORY'' 7,
          Headers = [], Partition = 0, Offset = 0\<rparr>, True)]
   \<and> failed_writes (snd (processOrderCreated order_payloads (calm 8) (message ''order o2: 5 of A'' 5) (shop ''A'' 3))) =
       [(\<lparr>Key = ''o2'', Value = OrderFailedEvent ''o2'' ''INSUFFICIENT_INVENTORY'' 8,
          Headers = [], Partition = 0, Offset = 0\<rparr>, True)]
   \<and> order_commits (order_consumer_step order_payloads (calm 8) (Msg (message ''order o2: 5 of A'' 5)) (shop ''A'' 3)) = [(5, True)]"
  using zero_rows_publishes_insufficient_inventory
      [of order_payloads "message ''order o3: 1 of B'' 4"
          "\<lparr>OrderID = ''o3'', AlbumID = ''B'', Quantity = 1, UserID = ''u2'', Timestamp = ''t''\<rparr>"
          "calm 7" "shop ''A'' 3"]
    zero_rows_publishes_insufficient_inventory
      [of order_payloads "message ''order o2: 5 of A'' 5"
          "\<lparr>OrderID = ''o2'', AlbumID = ''A'', Quantity = 5, UserID = ''u1'', Timestamp = ''t''\<rparr>"
          "calm 8" "shop ''A'' 3"]
  by (simp add: demo_unfold update_if_sufficient_def)

subsection \<open>Bootstrap of a Ledger entry\<close>

text \<open>
  Claim C5. The Ledger after \<^verbatim>\<open>processAlbumCreatedEvent\<close> is given exactly: when the event
  decodes and the insert does not fail, an item without entry gets one with the declared
  initial quantity if that is present and not negative and with zero otherwise, and an item
  with an entry keeps it. Moreover an existing entry is the same after any sequence of reads
  of the album consumer, so a repeated event never changes a quantity.
\<close>

theorem album_created_insert_if_absent:
  "inventory (snd (processAlbumCreatedEvent unmarshal e msg s)) =
     (case unmarshal (Value msg) of
        None \<Rightarrow> inventory s
      | Some ev \<Rightarrow>
          if exec_fails e then inventory s
          else (case inventory s (ace_AlbumID ev) of
                  Some r \<Rightarrow> inventory s
                | None \<Rightarrow>
                    (inventory s)(ace_AlbumID ev \<mapsto>
                       \<lparr>quantity_available =
                          (case InitialQuantity ev of Some q \<Rightarrow> if 0 \<le> q then q else 0 | None \<Rightarrow> 0),
                        last_updated = now e\<rparr>)))
   \<and> (inventory s a = Some r0 \<longrightarrow>
        inventory (startAlbumCreatedConsumer unmarshal ds s) a = Some r0)"
  using album_run_keeps_entry[of s a r0 unmarshal ds]
  by (simp add: inventory_after_album)

theorem album_created_witness:
  "inventory (shop ''A'' 3) ''A'' = Some \<lparr>quantity_available = 3, last_updated = 0\<rparr>
   \<and> inventory (snd (processAlbumCreatedEvent album_payloads (calm 4) (message ''album B: 7'' 0) (shop ''A'' 3))) ''B''
       = Some \<lparr>quantity_available = 7, last_updated = 4\<rparr>
   \<and> inventory (startAlbumCreatedConsumer album_payloads
         [(calm 5, Msg (message ''album A: 9'' 1)), (calm 6, Msg (message ''album A: 9'' 1))]
         (shop ''A'' 3)) ''A'' = Some \<lparr>quantity_available = 3, last_updated = 0\<rparr>"
  using album_created_insert_if_absent
     [of album_payloads "calm 4" "message ''album B: 7'' 0" "shop ''A'' 3" "''A''"
         "\<lparr>quantity_available = 3, last_updated = 0\<rparr>"
         "[(calm 5, Msg (message ''album A: 9'' 1)), (calm 6, Msg (message ''album A: 9'' 1))]"]
  by (simp add: demo_unfold)

subsection \<open>Transient storage failures\<close>




subsection \<open>Redelivery of an order\<close>

text \<open>
  Claim C1. Table \<^verbatim>\<open>processed_orders\<close> is created by \<^verbatim>\<open>initProcessedOrdersTable\<close>, but
  \<^verbatim>\<open>processOrderCreated\<close> neither reads nor writes it (lemma
  \<open>order_consumer_never_touches_processed_orders\<close>). Evaluated on a Ledger with three
  copies of album \<open>A\<close>: the order-created event of order \<open>o1\<close> for one copy, read twice by
  the consumer, is deducted twice (one copy is left), two success events with key \<open>o1\<close> are
  handed to the writer, and no processed-order record exists afterwards.
\<close>

theorem redelivered_order_is_deducted_again:
  "inventory (startOrderConsumer order_payloads
      [(calm 1, Msg (message ''order o1: 1 of A'' 0)),
       (calm 2, Msg (message ''order o1: 1 of A'' 0))] (shop ''A'' 3)) ''A''
     = Some \<lparr>quantity_available = 1, last_updated = 0\<rparr>
   \<and> succeeded_writes (startOrderConsumer order_payloads
      [(calm 1, Msg (message ''order o1: 1 of A'' 0)),
       (calm 2, Msg (message ''order o1: 1 of A'' 0))] (shop ''A'' 3))
     = [(\<lparr>Key = ''o1'', Value = OrderSucceededEvent ''o1'' 1, Headers = [], Partition = 0, Offset = 0\<rparr>, True),
        (\<lparr>Key = ''o1'', Value = OrderSucceededEvent ''o1'' 2, Headers = [], Partition = 0, Offset = 0\<rparr>, True)]
   \<and> processed_orders (startOrderConsumer order_payloads
      [(calm 1, Msg (message ''order o1: 1 of A'' 0)),
       (calm 2, Msg (message ''order o1: 1 of A'' 0))] (shop ''A'' 3)) ''o1'' = None"
  by (simp add: demo_unfold order_consumer_step_def order_unfold)

subsection \<open>Undecodable payloads\<close>

text \<open>
  Claim C6, at a concrete input: an undecodable payload read by the album consumer makes
  \<^verbatim>\<open>processAlbumCreatedEvent\<close> return an error, and the loop does not commit the offset.
\<close>

theorem album_parse_error_is_not_committed:
  "album_payloads ''junk'' = None
   \<and> fst (processAlbumCreatedEvent album_payloads (calm 1) (message ''junk'' 4) (shop ''A'' 3))
       = Some ErrParseAlbumCreatedEvent
   \<and> album_commits (album_consumer_step album_payloads (calm 1) (Msg (message ''junk'' 4)) (shop ''A'' 3)) = []"
  by (simp add: demo_unfold album_consumer_step_def album_unfold)

text \<open>
  Claim C6, as the code has it. For an undecodable payload, \<^verbatim>\<open>processOrderCreated\<close>
  logs the payload and returns no error, the state being otherwise as before, and the loop
  of the order consumer commits the offset; \<^verbatim>\<open>processAlbumCreatedEvent\<close> logs the payload
  and returns the parse error, the state being otherwise as before, and the loop of the
  album consumer does not commit the offset.
\<close>

theorem undecodable_payload_handling:
  "(unmarshal_order (Value msg) = None \<longrightarrow>
      processOrderCreated unmarshal_order e msg s =
        (None, s\<lparr>logs := logs s @ [LogReceived ''order-created'' (Partition msg) (Offset msg),
                                    LogOrderParseError (Value msg)]\<rparr>)
      \<and> order_commits (order_consumer_step unmarshal_order e (Msg msg) s) =
          order_commits s @ [(Offset msg, \<not> commit_offset_fails e)]
      \<and> inventory (order_consumer_step unmarshal_order e (Msg msg) s) = inventory s
      \<and> failed_writes (order_consumer_step unmarshal_order e (Msg msg) s) = failed_writes s
      \<and> succeeded_writes (order_consumer_step unmarshal_order e (Msg msg) s) = succeeded_writes s)
   \<and> (unmarshal_album (Value msg) = None \<longrightarrow>
      processAlbumCreatedEvent unmarshal_album e msg s =
        (Some ErrParseAlbumCreatedEvent,
         s\<lparr>logs := logs s @ [LogReceived ''album-created'' (Partition msg) (Offset msg),
                             LogAlbumParseError (Value msg)]\<rparr>)
      \<and> album_commits (album_consumer_step unmarshal_album e (Msg msg) s) = album_commits s
      \<and> inventory (album_consumer_step unmarshal_album e (Msg msg) s) = inventory s)"
  by (simp add: order_consumer_step_def album_consumer_step_def processOrderCreated_def
        processAlbumCreatedEvent_def logf_def Let_def)

theorem undecodable_payload_witness:
  "order_payloads ''junk'' = None \<and> album_payloads ''junk'' = None
   \<and> fst (processOrderCreated order_payloads (calm 1) (message ''junk'' 4) (shop ''A'' 3)) = None
   \<and> order_commits (order_consumer_step order_payloads (calm 1) (Msg (message ''junk'' 4)) (shop ''A'' 3)) = [(4, True)]
   \<and> fst (processAlbumCreatedEvent album_payloads (calm 1) (message ''junk'' 4) (shop ''A'' 3))
        = Some ErrParseAlbumCreatedEvent
   \<and> album_commits (album_consumer_step album_payloads (calm 1) (Msg (message ''junk'' 4)) (shop ''A'' 3)) = []"
  using undecodable_payload_handling
     [of order_payloads "message ''junk'' 4" "calm 1" "shop ''A'' 3" album_payloads]
  by (simp add: demo_unfold)

subsection \<open>Trace-context headers\<close>

text \<open>
  Claim C7, at a concrete input: the consumed message carries a \<open>traceparent\<close> header, the
  success message produced for it carries none.
\<close>

theorem outcome_message_has_no_headers:
  "Headers (message ''order o1: 1 of A'' 0) = [(''traceparent'', ''00-0af7-b7ad-01'')]
   \<and> succeeded_writes (snd (processOrderCreated order_payloads (calm 1)
        (message ''order o1: 1 of A'' 0) (shop ''A'' 3)))
      = [(\<lparr>Key = ''o1'', Value = OrderSucceededEvent ''o1'' 1, Headers = [],
           Partition = 0, Offset = 0\<rparr>, True)]
   \<and> Headers (fst (hd (succeeded_writes (snd (processOrderCreated order_payloads (calm 1)
        (message ''order o1: 1 of A'' 0) (shop ''A'' 3))))))
      \<noteq> Headers (message ''order o1: 1 of A'' 0)"
  by (simp add: demo_unfold order_unfold)

text \<open>
  Claim C7, as the code has it. Processing one order-created message hands at most one
  message to the two writers together, and every message handed over has an empty header
  list and the order identifier as its key, whatever headers the consumed message carried.
\<close>

theorem outcome_messages_carry_no_headers:
  "\<exists>fs ss. failed_writes (snd (processOrderCreated unmarshal e msg s)) = failed_writes s @ fs
     \<and> succeeded_writes (snd (processOrderCreated unmarshal e msg s)) = succeeded_writes s @ ss
     \<and> length (fs @ ss) \<le> 1
     \<and> (\<forall>w \<in> set (fs @ ss).
           Headers (fst w) = []
         \<and> (\<exists>ev. unmarshal (Value msg) = Some ev \<and> Key (fst w) = OrderID ev))"
  by (auto simp: order_unfold split: option.splits query_result.splits)

theorem outcome_messages_witness:
  "failed_writes (snd (processOrderCreated order_payloads (calm 1)
        (message ''order o3: 1 of B'' 2) (shop ''A'' 3)))
     = [(\<lparr>Key = ''o3'', Value = OrderFailedEvent ''o3'' ''INSUFFICIENT_INVENTORY'' 1,
          Headers = [], Partition = 0, Offset = 0\<rparr>, True)]
   \<and> succeeded_writes (snd (processOrderCreated order_payloads (calm 1)
        (message ''order o3: 1 of B'' 2) (shop ''A'' 3))) = []"
  using outcome_messages_carry_no_headers
     [of order_payloads "calm 1" "message ''order o3: 1 of B'' 2" "shop ''A'' 3"]
  by (simp add: demo_unfold order_unfold)

subsection \<open>The synchronous reservation against a concurrent caller\<close>

text \<open>
  Claim C9. \<^verbatim>\<open>reserveInventory\<close> is a read followed by an unconditional write, two
  statements sent one after the other. Run alone it decrements exactly when the entry
  exists and holds at least the requested quantity (lemma \<open>reserveInventory_alone\<close>).
  Evaluated on a Ledger with one copy of album \<open>A\<close> and two callers reserving one copy
  each: both reads see one copy and pass the comparison, then both writes are applied, and
  the quantity is \<open>- 1\<close>.
\<close>

theorem reserveInventory_interleaved_goes_negative:
  "reserveInventory_check (calm 1) ''A'' 1 (shop ''A'' 1) = None
   \<and> reserveInventory_check (calm 2) ''A'' 1 (shop ''A'' 1) = None
   \<and> fst (reserveInventory_apply (calm 1) ''A'' 1 (shop ''A'' 1)) = None
   \<and> fst (reserveInventory_apply (calm 2) ''A'' 1
            (snd (reserveInventory_apply (calm 1) ''A'' 1 (shop ''A'' 1)))) = None
   \<and> inventory (snd (reserveInventory_apply (calm 2) ''A'' 1
            (snd (reserveInventory_apply (calm 1) ''A'' 1 (shop ''A'' 1))))) ''A''
       = Some \<lparr>quantity_available = - 1, last_updated = 2\<rparr>"
  by (simp add: demo_unfold reserveInventory_check_def reserveInventory_apply_def
        QueryRow_def update_unconditional_def logf_def Let_def)

subsection \<open>Reading the inventory of an unknown album\<close>

text \<open>
  Claim C10. For an album without Ledger entry, \<^verbatim>\<open>getInventory\<close> answers with status 200
  and an inventory object holding the requested identifier, quantity zero and the current
  time (status 500 if the query itself fails), never with status 404, and the state after
  the request is the state before it, so no row is created.
\<close>

theorem getInventory_missing_entry:
  assumes "inventory s albumID = None"
  shows "getInventory e albumID s =
      (if query_fails e
       then ((StatusInternalServerError, ErrorBody ''Database error: ''), s)
       else ((StatusOK,
              InventoryBody \<lparr>inv_AlbumID = albumID, inv_QuantityAvailable = 0,
                             inv_LastUpdated = now e\<rparr>), s))
    \<and> fst (fst (getInventory e albumID s)) \<noteq> StatusNotFound"
  using assms
  by (simp add: getInventory_def QueryRow_def StatusOK_def StatusNotFound_def
        StatusInternalServerError_def)

theorem getInventory_missing_entry_witness:
  "inventory (shop ''A'' 3) ''Z'' = None
   \<and> getInventory (calm 9) ''Z'' (shop ''A'' 3) =
       ((200, InventoryBody \<lparr>inv_AlbumID = ''Z'', inv_QuantityAvailable = 0, inv_LastUpdated = 9\<rparr>),
        shop ''A'' 3)"
proof -
  have h: "inventory (shop ''A'' 3) ''Z'' = None" by (simp add: shop_def)
  show ?thesis using h getInventory_missing_entry[OF h, of "calm 9"]
    by (simp add: calm_def StatusOK_def)
qed

end
